theory Spec2Isabelle
  imports Complex_Main
begin

section \<open>Technical-analysis indicators and candlestick patterns\<close>

text \<open>
  A shallow embedding of \<^verbatim>\<open>indicators.py\<close> and \<^verbatim>\<open>patterns.py\<close>.
  Python floats are idealised as the real numbers. The missing value of a pandas
  Series (NaN) is \<open>None\<close>; a defined value \<open>x\<close> is \<open>Some x\<close>. A call that raises is
  \<open>Inl e\<close>, a call that returns \<open>v\<close> is \<open>Inr v\<close>.
\<close>

subsection \<open>Data model\<close>

text \<open>
  \<open>ValueError\<close> is what pandas raises for a negative window or a span below one.
  \<open>InvalidParameter\<close> and \<open>InsufficientData\<close> are the error kinds the
  specification names; no statement of the source raises them.
\<close>

datatype error = ValueError | InvalidParameter | InsufficientData

type_synonym series = "real option list"

text \<open>One row of the DataFrame handed to \<^verbatim>\<open>detect_patterns\<close>, by column name.\<close>

record 'd candle =
  Date :: 'd
  Open :: real
  Close :: real
  High :: real
  Low :: real

text \<open>The dictionary returned by \<^verbatim>\<open>peak_trough_analysis\<close>.\<close>

record peaks_troughs =
  peaks :: "real list"
  troughs :: "real list"

subsection \<open>pandas: Series\<close>

text \<open>\<^verbatim>\<open>pd.Series(prices)\<close> of a list of numbers: every position holds a value.\<close>

definition pd_Series :: "real list \<Rightarrow> series" where
  "pd_Series prices = map Some prices"

subsection \<open>pandas: rolling mean\<close>









subsection \<open>Simple moving average\<close>



subsection \<open>pandas: exponentially weighted mean\<close>

text \<open>
  \<^verbatim>\<open>Series.ewm(span, adjust=False).mean()\<close>, with \<open>ignore_na\<close> at its default
  False. pandas walks the values once, carrying the weighted mean so far, the weight
  of that mean and the number of observations seen. An observation replaces the mean
  by the normalised combination of the old mean (weight \<open>old_wt\<close>) and the new value
  (weight \<open>alpha\<close>), unless the two are equal, and resets \<open>old_wt\<close> to one; a NaN
  only decays \<open>old_wt\<close>; leading NaNs leave the mean undefined. The output at a
  position is the mean when at least \<open>minp\<close> observations have been seen.
\<close>

record ewm_state =
  weighted :: "real option"
  old_wt :: real
  nobs :: nat

definition ewm_step :: "real \<Rightarrow> ewm_state \<Rightarrow> real option \<Rightarrow> ewm_state" where
  "ewm_step alpha st cur =
     (let old_wt_factor = 1 - alpha;
          new_wt = alpha;
          n = nobs st + (if cur = None then 0 else 1)
      in case weighted st of
           Some w \<Rightarrow>
             (let ow = old_wt st * old_wt_factor
              in case cur of
                   Some c \<Rightarrow>
                     \<lparr>weighted = (if w \<noteq> c then Some ((ow * w + new_wt * c) / (ow + new_wt))
                                  else Some w),
                      old_wt = 1, nobs = n\<rparr>
                 | None \<Rightarrow> \<lparr>weighted = Some w, old_wt = ow, nobs = n\<rparr>)
         | None \<Rightarrow> \<lparr>weighted = cur, old_wt = old_wt st, nobs = n\<rparr>)"

definition ewm_output :: "nat \<Rightarrow> ewm_state \<Rightarrow> real option" where
  "ewm_output minp st = (if nobs st \<ge> minp then weighted st else None)"

fun ewm_loop :: "real \<Rightarrow> nat \<Rightarrow> ewm_state \<Rightarrow> series \<Rightarrow> series" where
  "ewm_loop alpha minp st [] = []"
| "ewm_loop alpha minp st (cur # rest) =
     (let st' = ewm_step alpha st cur
      in ewm_output minp st' # ewm_loop alpha minp st' rest)"

definition ewm_mean :: "real \<Rightarrow> nat \<Rightarrow> series \<Rightarrow> series" where
  "ewm_mean alpha minp vals =
     (case vals of
        [] \<Rightarrow> []
      | v # rest \<Rightarrow>
          (let st = \<lparr>weighted = v, old_wt = 1, nobs = (if v = None then 0 else 1)\<rparr>
           in ewm_output minp st # ewm_loop alpha minp st rest))"

subsection \<open>Exponential moving average\<close>

text \<open>
  \<^verbatim>\<open>pd.Series(prices).ewm(span=period, adjust=False).mean()\<close>. The argument is a
  Series here because \<open>calculate_macd\<close> passes one; a list of numbers is passed as
  \<open>pd_Series prices\<close>. pandas rejects a span below one with ValueError, turns the span
  into the centre of mass \<open>(span - 1) / 2\<close> and that into \<open>alpha = 1 / (1 + com)\<close>;
  \<open>min_periods\<close> defaults to zero, which the loop raises to one.
\<close>

definition calculate_ema :: "series \<Rightarrow> int \<Rightarrow> error + series" where
  "calculate_ema prices period =
     (if period < 1 then Inl ValueError
      else let com = (real_of_int period - 1) / 2;
               alpha = 1 / (1 + com)
           in Inr (ewm_mean alpha 1 prices))"

text \<open>
  The recurrence of the specification: each value is
  \<open>\<alpha> * price + (1 - \<alpha>) * previous\<close>, started from a given previous value.
\<close>

fun ema_from :: "real \<Rightarrow> real \<Rightarrow> real list \<Rightarrow> real list" where
  "ema_from \<alpha> prev [] = []"
| "ema_from \<alpha> prev (p # ps) =
     (\<alpha> * p + (1 - \<alpha>) * prev) # ema_from \<alpha> (\<alpha> * p + (1 - \<alpha>) * prev) ps"

subsection \<open>MACD\<close>

text \<open>
  The difference of two Series is taken position by position and is NaN where either
  side is.
\<close>

definition series_sub :: "series \<Rightarrow> series \<Rightarrow> series" where
  "series_sub xs ys =
     map2 (\<lambda>a b. case (a, b) of (Some x, Some y) \<Rightarrow> Some (x - y) | _ \<Rightarrow> None) xs ys"

definition calculate_macd :: "real list \<Rightarrow> error + series \<times> series" where
  "calculate_macd prices =
     (case calculate_ema (pd_Series prices) 12 of
        Inl e \<Rightarrow> Inl e
      | Inr ema_12 \<Rightarrow>
          (case calculate_ema (pd_Series prices) 26 of
             Inl e \<Rightarrow> Inl e
           | Inr ema_26 \<Rightarrow>
               (let macd = series_sub ema_12 ema_26
                in case calculate_ema macd 9 of
                     Inl e \<Rightarrow> Inl e
                   | Inr signal_line \<Rightarrow> Inr (macd, signal_line))))"

subsection \<open>Horizontal support and resistance\<close>

text \<open>
  \<^verbatim>\<open>Series.value_counts()\<close>: the distinct values that are not NaN, each with its
  number of occurrences, the larger counts first. Equal counts keep the order of first
  appearance here; the results below do not depend on the order.
\<close>

definition dropna :: "series \<Rightarrow> real list" where
  "dropna s = concat (map (\<lambda>v. case v of None \<Rightarrow> [] | Some x \<Rightarrow> [x]) s)"

definition value_counts :: "series \<Rightarrow> (real \<times> nat) list" where
  "value_counts s =
     (let xs = dropna s;
          uniques = rev (remdups (rev xs))
      in sort_key (\<lambda>p. - int (snd p)) (map (\<lambda>v. (v, count_list xs v)) uniques))"

text \<open>The dictionary returned by \<^verbatim>\<open>identify_horizontal_support_resistance\<close>.\<close>

record support_resistance =
  support :: "real list"
  resistance :: "real list"

definition identify_horizontal_support_resistance :: "real list \<Rightarrow> error + support_resistance" where
  "identify_horizontal_support_resistance prices =
     (let levels = value_counts (pd_Series prices);
          resistance = map fst (filter (\<lambda>p. snd p > 1) levels);
          support = map fst (filter (\<lambda>p. snd p < 1) levels)
      in Inr \<lparr>support = support, resistance = resistance\<rparr>)"

subsection \<open>Peak and trough analysis\<close>

text \<open>
  The body of the loop \<^verbatim>\<open>for i in range(1, len(prices) - 1)\<close>: the state is the
  pair of lists the source appends to.
\<close>

definition peak_trough_step ::
  "real list \<Rightarrow> real list \<times> real list \<Rightarrow> nat \<Rightarrow> real list \<times> real list" where
  "peak_trough_step prices st i =
     (if prices ! i > prices ! (i - 1) \<and> prices ! i > prices ! (i + 1)
      then (fst st @ [prices ! i], snd st)
      else if prices ! i < prices ! (i - 1) \<and> prices ! i < prices ! (i + 1)
      then (fst st, snd st @ [prices ! i])
      else st)"

definition peak_trough_analysis :: "real list \<Rightarrow> error + peaks_troughs" where
  "peak_trough_analysis prices =
     (let st = foldl (peak_trough_step prices) ([], []) [1 ..< length prices - 1]
      in Inr \<lparr>peaks = fst st, troughs = snd st\<rparr>)"

subsection \<open>Candlestick predicates\<close>

definition is_doji :: "real \<Rightarrow> real \<Rightarrow> real \<Rightarrow> bool" where
  "is_doji open_price close_price threshold \<longleftrightarrow>
     \<bar>open_price - close_price\<bar> < threshold * (open_price + close_price) / 2"

definition is_hammer :: "real \<Rightarrow> real \<Rightarrow> real \<Rightarrow> real \<Rightarrow> bool" where
  "is_hammer low high open_price close_price =
     (let body = \<bar>close_price - open_price\<bar>;
          lower_shadow = (if open_price < close_price then open_price - low
                          else close_price - low);
          upper_shadow = (if open_price < close_price then high - open_price
                          else high - close_price)
      in body < upper_shadow * 0.1 \<and> lower_shadow > 2 * body)"

definition is_engulfing :: "real \<Rightarrow> real \<Rightarrow> real \<Rightarrow> real \<Rightarrow> string" where
  "is_engulfing previous_open previous_close current_open current_close =
     (if current_open < previous_close \<and> current_close > previous_open then ''Bullish''
      else if current_open > previous_close \<and> current_close < previous_open then ''Bearish''
      else ''None'')"

subsection \<open>Scanning a bar series\<close>

text \<open>
  The body of \<^verbatim>\<open>for i in range(1, len(data))\<close>; \<open>is_doji\<close> is called with its
  default threshold 0.01.
\<close>

definition detect_step ::
  "'d candle list \<Rightarrow> ('d \<times> string) list \<Rightarrow> nat \<Rightarrow> ('d \<times> string) list" where
  "detect_step data patterns i =
     (let current_candle = data ! i;
          previous_candle = data ! (i - 1)
      in if is_doji (Open current_candle) (Close current_candle) 0.01
         then patterns @ [(Date current_candle, ''Doji'')]
         else if is_hammer (Low current_candle) (High current_candle)
                   (Open current_candle) (Close current_candle)
         then patterns @ [(Date current_candle, ''Hammer'')]
         else (let engulfing_type =
                     is_engulfing (Open previous_candle) (Close previous_candle)
                       (Open current_candle) (Close current_candle)
               in if engulfing_type \<noteq> ''None''
                  then patterns @ [(Date current_candle, engulfing_type @ '' Engulfing'')]
                  else patterns))"

definition detect_patterns :: "'d candle list \<Rightarrow> error + ('d \<times> string) list" where
  "detect_patterns data = Inr (foldl (detect_step data) [] [1 ..< length data])"

subsection \<open>Fibonacci retracement levels\<close>

text \<open>The dictionary literal is an association list in the order the source writes it.\<close>

definition calculate_fibonacci_levels :: "real \<Rightarrow> real \<Rightarrow> error + (string \<times> real) list" where
  "calculate_fibonacci_levels swing_high swing_low =
     (let price_range = swing_high - swing_low
      in Inr [(''Support Level 1'', swing_high - 0.236 * price_range),
              (''Support Level 2'', swing_high - 0.382 * price_range),
              (''Support Level 3'', swing_high - 0.618 * price_range),
              (''Resistance Level 1'', swing_low + 0.236 * price_range),
              (''Resistance Level 2'', swing_low + 0.382 * price_range),
              (''Resistance Level 3'', swing_low + 0.618 * price_range)])"

subsection \<open>The classifier as the specification words it\<close>

text \<open>
  The specification describes \<open>classify_sequence\<close> as an ordered rule list, evaluated
  top to bottom with the first match winning, applied to every bar from the second
  onward together with its predecessor. The definitions below follow that wording;
  \<open>detect_patterns\<close> above follows the source.
\<close>

type_synonym 'd rule = "'d candle \<Rightarrow> 'd candle \<Rightarrow> string option"









text \<open>
  The two relations between candle bodies that the description of \<open>is_engulfing\<close>
  uses: the current body contains the previous one; the two bodies share a point.
\<close>

definition body_contains :: "real \<Rightarrow> real \<Rightarrow> real \<Rightarrow> real \<Rightarrow> bool" where
  "body_contains previous_open previous_close current_open current_close \<longleftrightarrow>
     min current_open current_close \<le> min previous_open previous_close \<and>
     max previous_open previous_close \<le> max current_open current_close"

definition bodies_overlap :: "real \<Rightarrow> real \<Rightarrow> real \<Rightarrow> real \<Rightarrow> bool" where
  "bodies_overlap previous_open previous_close current_open current_close \<longleftrightarrow>
     max (min previous_open previous_close) (min current_open current_close)
       \<le> min (max previous_open previous_close) (max current_open current_close)"

section \<open>Properties\<close>

subsection \<open>Peak and trough analysis\<close>

lemma foldl_peak_trough_step:
  "foldl (peak_trough_step prices) st js =
     (fst st @ map (\<lambda>i. prices ! i)
        (filter (\<lambda>i. prices ! (i - 1) < prices ! i \<and> prices ! (i + 1) < prices ! i) js),
      snd st @ map (\<lambda>i. prices ! i)
        (filter (\<lambda>i. prices ! i < prices ! (i - 1) \<and> prices ! i < prices ! (i + 1)) js))"
proof (induction js arbitrary: st)
  case Nil
  show ?case by simp
next
  case (Cons j js)
  show ?case
    unfolding foldl_Cons Cons.IH
    by (auto simp: peak_trough_step_def)
qed

text \<open>
  C10. \<open>peak_trough_analysis\<close> scans the interior positions \<open>1 .. len - 2\<close> only, in
  order: the peaks are the values strictly above both neighbours, the troughs the
  values strictly below both, so the first and the last element are never classified
  and a position with an equal neighbour is neither. On \<open>[1,3,2,5,1]\<close> the peaks are
  \<open>[3,5]\<close> (positions 1 and 3) and the troughs \<open>[2]\<close> (position 2).
\<close>

theorem peak_trough_interior:
  "peak_trough_analysis prices =
     Inr \<lparr>peaks = map (\<lambda>i. prices ! i)
            (filter (\<lambda>i. prices ! (i - 1) < prices ! i \<and> prices ! (i + 1) < prices ! i)
               [1 ..< length prices - 1]),
          troughs = map (\<lambda>i. prices ! i)
            (filter (\<lambda>i. prices ! i < prices ! (i - 1) \<and> prices ! i < prices ! (i + 1))
               [1 ..< length prices - 1])\<rparr>
   \<and> peak_trough_analysis [1, 3, 2, 5, 1] = Inr \<lparr>peaks = [3, 5], troughs = [2]\<rparr>
   \<and> filter (\<lambda>i. [1, 3, 2, 5, 1 :: real] ! (i - 1) < [1, 3, 2, 5, 1] ! i
                \<and> [1, 3, 2, 5, 1 :: real] ! (i + 1) < [1, 3, 2, 5, 1] ! i) [1 ..< 4] = [1, 3]
   \<and> filter (\<lambda>i. [1, 3, 2, 5, 1 :: real] ! i < [1, 3, 2, 5, 1] ! (i - 1)
                \<and> [1, 3, 2, 5, 1 :: real] ! i < [1, 3, 2, 5, 1] ! (i + 1)) [1 ..< 4] = [2]"
proof -
  have idx: "[Suc 0 ..< 4] = [1, 2, 3 :: nat]"
    by (simp add: upt_rec)
  have general: "\<And>ps. peak_trough_analysis ps =
     Inr \<lparr>peaks = map (\<lambda>i. ps ! i)
            (filter (\<lambda>i. ps ! (i - 1) < ps ! i \<and> ps ! (i + 1) < ps ! i)
               [1 ..< length ps - 1]),
          troughs = map (\<lambda>i. ps ! i)
            (filter (\<lambda>i. ps ! i < ps ! (i - 1) \<and> ps ! i < ps ! (i + 1))
               [1 ..< length ps - 1])\<rparr>"
    by (simp add: peak_trough_analysis_def foldl_peak_trough_step)
  have example: "peak_trough_analysis [1, 3, 2, 5, 1] = Inr \<lparr>peaks = [3, 5], troughs = [2]\<rparr>"
    unfolding general by (simp add: idx)
  have peak_positions:
    "filter (\<lambda>i. [1, 3, 2, 5, 1 :: real] ! (i - 1) < [1, 3, 2, 5, 1] ! i
                \<and> [1, 3, 2, 5, 1 :: real] ! (i + 1) < [1, 3, 2, 5, 1] ! i) [1 ..< 4] = [1, 3]"
    by (simp add: idx)
  have trough_positions:
    "filter (\<lambda>i. [1, 3, 2, 5, 1 :: real] ! i < [1, 3, 2, 5, 1] ! (i - 1)
                \<and> [1, 3, 2, 5, 1 :: real] ! i < [1, 3, 2, 5, 1] ! (i + 1)) [1 ..< 4] = [2]"
    by (simp add: idx)
  from general [of prices] example peak_positions trough_positions
  show ?thesis by (intro conjI)
qed

subsection \<open>Doji with a zero scale\<close>



subsection \<open>Scanning a bar series\<close>












subsection \<open>Fibonacci levels with the swings reversed\<close>

text \<open>
  The claim C5 as stated fails at \<open>swing_high = 100\<close>, \<open>swing_low = 110\<close>: the source
  has no check and returns six levels.
\<close>

theorem fibonacci_reversed_swing_counterexample:
  "(100::real) < 110
   \<and> calculate_fibonacci_levels 100 110 \<noteq> Inl InvalidParameter
   \<and> calculate_fibonacci_levels 100 110 =
       Inr [(''Support Level 1'', 102.36), (''Support Level 2'', 103.82),
            (''Support Level 3'', 106.18), (''Resistance Level 1'', 107.64),
            (''Resistance Level 2'', 106.18), (''Resistance Level 3'', 103.82)]"
  by (simp add: calculate_fibonacci_levels_def)

text \<open>
  C5, amended. For \<open>swing_high < swing_low\<close> the function does not fail: it returns
  the six named levels computed from the negative \<open>price_range\<close>.
\<close>

theorem fibonacci_reversed_swing_returns:
  "swing_high < swing_low \<Longrightarrow>
   calculate_fibonacci_levels swing_high swing_low =
     Inr [(''Support Level 1'', swing_high - 0.236 * (swing_high - swing_low)),
          (''Support Level 2'', swing_high - 0.382 * (swing_high - swing_low)),
          (''Support Level 3'', swing_high - 0.618 * (swing_high - swing_low)),
          (''Resistance Level 1'', swing_low + 0.236 * (swing_high - swing_low)),
          (''Resistance Level 2'', swing_low + 0.382 * (swing_high - swing_low)),
          (''Resistance Level 3'', swing_low + 0.618 * (swing_high - swing_low))]
   \<and> calculate_fibonacci_levels swing_high swing_low \<noteq> Inl InvalidParameter
   \<and> swing_high - swing_low < 0"
  by (simp add: calculate_fibonacci_levels_def)

theorem fibonacci_reversed_swing_returns_witness:
  "(95::real) < 105
   \<and> calculate_fibonacci_levels 95 105 =
       Inr [(''Support Level 1'', 97.36), (''Support Level 2'', 98.82),
            (''Support Level 3'', 101.18), (''Resistance Level 1'', 102.64),
            (''Resistance Level 2'', 101.18), (''Resistance Level 3'', 98.82)]"
  using fibonacci_reversed_swing_returns [of 95 105] by simp

subsection \<open>Inputs too short to classify anything\<close>

text \<open>
  The claim C6 as stated fails on a two-element price list and on a one-bar series:
  both loops run zero times and the empty result is returned.
\<close>

theorem short_input_counterexample:
  "length [1, 2 :: real] < 3
   \<and> peak_trough_analysis [1, 2] = Inr \<lparr>peaks = [], troughs = []\<rparr>
   \<and> peak_trough_analysis [1, 2] \<noteq> Inl InsufficientData
   \<and> length [\<lparr>Date = 0::nat, Open = 100, Close = 102, High = 103, Low = 99\<rparr>] < 2
   \<and> detect_patterns [\<lparr>Date = 0::nat, Open = 100, Close = 102, High = 103, Low = 99\<rparr>] = Inr []
   \<and> detect_patterns [\<lparr>Date = 0::nat, Open = 100, Close = 102, High = 103, Low = 99\<rparr>]
       \<noteq> Inl InsufficientData"
  by (simp add: peak_trough_analysis_def detect_patterns_def)

text \<open>
  C6, amended. With fewer than three prices \<open>peak_trough_analysis\<close> returns empty
  peaks and troughs; with fewer than two bars \<open>detect_patterns\<close> returns the empty
  list. Neither fails.
\<close>

theorem short_input_returns_empty:
  "(length prices < 3 \<longrightarrow>
      peak_trough_analysis prices = Inr \<lparr>peaks = [], troughs = []\<rparr>)
   \<and> (length data < 2 \<longrightarrow> detect_patterns data = Inr [])"
  by (simp add: peak_trough_analysis_def detect_patterns_def)

theorem short_input_returns_empty_witness:
  "length [7 :: real] < 3
   \<and> peak_trough_analysis [7] = Inr \<lparr>peaks = [], troughs = []\<rparr>
   \<and> length ([] :: nat candle list) < 2
   \<and> detect_patterns ([] :: nat candle list) = Inr []"
  using short_input_returns_empty [of "[7]" "[] :: nat candle list"] by simp

subsection \<open>Engulfing\<close>

text \<open>
  The claim C8 as stated fails at previous body 100 to 102 and current body 101 to
  101.5: the current body lies inside the previous one, and the result is Bullish.
\<close>

theorem is_engulfing_overlap_counterexample:
  "bodies_overlap 100 102 101 101.5
   \<and> \<not> body_contains 100 102 101 101.5
   \<and> is_engulfing 100 102 101 101.5 = ''Bullish''
   \<and> is_engulfing 100 102 101 101.5 \<noteq> ''None''"
  by (simp add: bodies_overlap_def body_contains_def is_engulfing_def)

text \<open>
  C8, amended. \<open>is_engulfing\<close> returns Bullish exactly when the current open is
  below the previous close and the current close is above the previous open, Bearish
  exactly when that test fails and its mirror image holds, and None otherwise. A
  rising current body that strictly contains the previous body passes the test, as
  the documented example 100, 102, 99, 103 does.
\<close>

theorem is_engulfing_rule:
  "(is_engulfing previous_open previous_close current_open current_close = ''Bullish''
      \<longleftrightarrow> current_open < previous_close \<and> previous_open < current_close)
   \<and> (is_engulfing previous_open previous_close current_open current_close = ''Bearish''
      \<longleftrightarrow> \<not> (current_open < previous_close \<and> previous_open < current_close)
        \<and> previous_close < current_open \<and> current_close < previous_open)
   \<and> (is_engulfing previous_open previous_close current_open current_close = ''None''
      \<longleftrightarrow> \<not> (current_open < previous_close \<and> previous_open < current_close)
        \<and> \<not> (previous_close < current_open \<and> current_close < previous_open))
   \<and> (current_open < min previous_open previous_close
        \<and> max previous_open previous_close < current_close
      \<longrightarrow> body_contains previous_open previous_close current_open current_close
        \<and> is_engulfing previous_open previous_close current_open current_close = ''Bullish'')
   \<and> is_engulfing 100 102 99 103 = ''Bullish''"
  by (auto simp: is_engulfing_def body_contains_def)

theorem is_engulfing_rule_witness:
  "(98::real) < min 100 101 \<and> max 100 101 < (104::real)
   \<and> body_contains 100 101 98 104
   \<and> is_engulfing 100 101 98 104 = ''Bullish''"
  using is_engulfing_rule [of 100 101 98 104] by simp

subsection \<open>Simple moving average\<close>











subsection \<open>Horizontal support and resistance\<close>

lemma dropna_pd_Series: "dropna (pd_Series prices) = prices"
  by (induction prices) (simp_all add: dropna_def pd_Series_def)

lemma set_value_counts:
  "set (value_counts (pd_Series prices)) = (\<lambda>v. (v, count_list prices v)) ` set prices"
  by (simp add: value_counts_def dropna_pd_Series)

lemma distinct_keys_value_counts: "distinct (map fst (value_counts (pd_Series prices)))"
proof -
  have "inj_on fst ((\<lambda>v. (v, count_list prices v)) ` set prices)"
    by (auto simp: inj_on_def)
  moreover have "distinct (map (\<lambda>v. (v, count_list prices v)) (rev (remdups (rev prices))))"
    by (simp add: distinct_map inj_on_def)
  ultimately show ?thesis
    by (simp add: distinct_map value_counts_def dropna_pd_Series)
qed

lemma count_list_pos: "v \<in> set xs \<Longrightarrow> 0 < count_list xs v"
  by (induction xs) auto

lemma count_list_zero: "v \<notin> set xs \<Longrightarrow> count_list xs v = 0"
  by (induction xs) auto

text \<open>
  C7. For every price list the support list is empty, because every level that
  \<open>value_counts\<close> reports occurs at least once and the filter \<open>< 1\<close> selects
  nothing; the resistance list holds exactly the distinct values that occur more than
  once.
\<close>

theorem support_always_empty:
  "\<exists>r. identify_horizontal_support_resistance prices = Inr r
     \<and> filter (\<lambda>p. snd p < 1) (value_counts (pd_Series prices)) = []
     \<and> support r = []
     \<and> distinct (resistance r)
     \<and> set (resistance r) = {v. 1 < count_list prices v}"
proof -
  let ?levels = "value_counts (pd_Series prices)"
  have no_support: "filter (\<lambda>p. snd p < 1) ?levels = []"
    by (auto simp: filter_empty_conv set_value_counts dest: count_list_pos)
  have dist: "distinct (map fst (filter (\<lambda>p. 1 < snd p) ?levels))"
    by (rule distinct_map_filter) (rule distinct_keys_value_counts)
  have members: "set (map fst (filter (\<lambda>p. 1 < snd p) ?levels)) = {v. 1 < count_list prices v}"
  proof (rule set_eqI)
    fix v
    show "v \<in> set (map fst (filter (\<lambda>p. 1 < snd p) ?levels)) \<longleftrightarrow> v \<in> {v. 1 < count_list prices v}"
      using count_list_zero [of v prices]
      by (cases "v \<in> set prices") (auto simp: set_value_counts image_iff)
  qed
  show ?thesis
    using no_support dist members
    by (simp add: identify_horizontal_support_resistance_def)
qed

subsection \<open>Exponential moving average\<close>

lemma span_alpha: "1 \<le> period \<Longrightarrow> 1 / (1 + (real_of_int period - 1) / 2) = 2 / (real_of_int period + 1)"
  by (simp add: field_simps)

lemma ewm_step_observed:
  "ewm_step \<alpha> \<lparr>weighted = Some w, old_wt = 1, nobs = n\<rparr> (Some c) =
     \<lparr>weighted = Some (\<alpha> * c + (1 - \<alpha>) * w), old_wt = 1, nobs = Suc n\<rparr>"
  by (cases "w = c") (simp_all add: ewm_step_def Let_def algebra_simps)

lemma ewm_loop_observed:
  "1 \<le> n \<Longrightarrow>
   ewm_loop \<alpha> (Suc 0) \<lparr>weighted = Some w, old_wt = 1, nobs = n\<rparr> (map Some ps) =
     map Some (ema_from \<alpha> w ps)"
  by (induction ps arbitrary: w n) (simp_all add: ewm_step_observed ewm_output_def)

lemma ema_from_length: "length (ema_from \<alpha> w ps) = length ps"
  by (induction ps arbitrary: w) simp_all

lemma ema_from_nth:
  "i < length ps \<Longrightarrow>
   (w # ema_from \<alpha> w ps) ! Suc i = \<alpha> * ps ! i + (1 - \<alpha>) * (w # ema_from \<alpha> w ps) ! i"
proof (induction ps arbitrary: w i)
  case Nil
  then show ?case by simp
next
  case (Cons p ps)
  show ?case
  proof (cases i)
    case 0
    then show ?thesis by simp
  next
    case (Suc k)
    with Cons.prems have "k < length ps" by simp
    from Cons.IH [OF this, of "\<alpha> * p + (1 - \<alpha>) * w"] Suc show ?thesis by simp
  qed
qed

text \<open>
  C2. For every \<open>period \<ge> 1\<close> and every non-empty price list, \<open>calculate_ema\<close>
  returns a series with a value at every position: the first equals the first price,
  and every later one equals \<open>\<alpha> * prices[i] + (1 - \<alpha>) * ema[i - 1]\<close> with
  \<open>\<alpha> = 2 / (period + 1)\<close>.
\<close>

theorem calculate_ema_recurrence:
  assumes "1 \<le> period" and "prices \<noteq> []"
  shows "\<exists>ema. calculate_ema (pd_Series prices) period = Inr (map Some ema)
           \<and> length ema = length prices
           \<and> ema ! 0 = prices ! 0
           \<and> (\<forall>i. 0 < i \<and> i < length prices \<longrightarrow>
                 ema ! i = 2 / (real_of_int period + 1) * prices ! i
                           + (1 - 2 / (real_of_int period + 1)) * ema ! (i - 1))"
proof -
  let ?\<alpha> = "2 / (real_of_int period + 1)"
  from assms(2) obtain p ps where prices: "prices = p # ps"
    by (cases prices) auto
  let ?ema = "p # ema_from ?\<alpha> p ps"
  have ret: "calculate_ema (pd_Series prices) period = Inr (map Some ?ema)"
    using assms(1)
    by (simp add: calculate_ema_def span_alpha prices pd_Series_def ewm_mean_def
        ewm_output_def ewm_loop_observed)
  have rec: "?ema ! i = ?\<alpha> * prices ! i + (1 - ?\<alpha>) * ?ema ! (i - 1)"
    if "0 < i" "i < length prices" for i
  proof -
    from that obtain k where k: "i = Suc k" "k < length ps"
      by (cases i) (auto simp: prices)
    show ?thesis
      using ema_from_nth [OF k(2), of p ?\<alpha>] by (simp add: k prices)
  qed
  have "length ?ema = length prices" "?ema ! 0 = prices ! 0"
    by (simp_all add: prices ema_from_length)
  with ret rec show ?thesis by blast
qed

theorem calculate_ema_recurrence_witness:
  "(1::int) \<le> 3 \<and> [1, 2, 3, 4 :: real] \<noteq> []
   \<and> (\<exists>ema. calculate_ema (pd_Series [1, 2, 3, 4]) 3 = Inr (map Some ema)
          \<and> length ema = 4
          \<and> ema ! 0 = 1
          \<and> ema ! 1 = 3 / 2
          \<and> ema ! 2 = 9 / 4)"
proof -
  obtain ema where ret: "calculate_ema (pd_Series [1, 2, 3, 4]) 3 = Inr (map Some ema)"
    and len: "length ema = length [1, 2, 3, 4 :: real]"
    and first: "ema ! 0 = [1, 2, 3, 4] ! 0"
    and rec: "\<And>i. 0 < i \<and> i < length [1, 2, 3, 4 :: real] \<Longrightarrow>
                ema ! i = 2 / (real_of_int 3 + 1) * [1, 2, 3, 4] ! i
                          + (1 - 2 / (real_of_int 3 + 1)) * ema ! (i - 1)"
    using calculate_ema_recurrence [of 3 "[1, 2, 3, 4]"] by auto
  have e0: "ema ! 0 = 1"
    using first by simp
  have e1: "ema ! 1 = 3 / 2"
    using rec [of 1] e0 by simp
  have "ema ! 2 = 2 / (real_of_int 3 + 1) * [1, 2, 3, 4] ! 2
                          + (1 - 2 / (real_of_int 3 + 1)) * ema ! (2 - 1)"
    by (rule rec) simp
  then have e2: "ema ! 2 = 9 / 4"
    using e1 by simp
  from ret len e0 e1 e2 show ?thesis by simp
qed

subsection \<open>MACD of a constant series\<close>

lemma ewm_loop_constant:
  "1 \<le> k \<Longrightarrow>
   ewm_loop \<alpha> (Suc 0) \<lparr>weighted = Some c, old_wt = 1, nobs = k\<rparr> (replicate m (Some c)) =
     replicate m (Some c)"
  by (induction m arbitrary: k) (simp_all add: ewm_step_def ewm_output_def)

lemma calculate_ema_constant:
  "1 \<le> period \<Longrightarrow>
   calculate_ema (replicate n (Some c)) period = Inr (replicate n (Some c))"
  by (cases n) (simp_all add: calculate_ema_def ewm_mean_def ewm_output_def ewm_loop_constant)

lemma series_sub_constant:
  "series_sub (replicate n (Some c)) (replicate n (Some c)) = replicate n (Some 0)"
  by (simp add: series_sub_def)

text \<open>
  C4. For a constant price series, that is \<open>replicate n c\<close>, \<open>calculate_macd\<close>
  returns a MACD line and a signal line that are zero at every position.
\<close>

theorem calculate_macd_constant:
  "calculate_macd (replicate n c) = Inr (replicate n (Some 0), replicate n (Some 0))"
  by (simp add: calculate_macd_def pd_Series_def calculate_ema_constant series_sub_constant
      Let_def)

end
